theory Spec2Isabelle
  imports Complex_Main "HOL-Library.Sublist"
begin

chapter \<open>The functional-API tutorial and the PR GPU workflow\<close>

text \<open>
  The repository material is a notebook, \<^verbatim>\<open>examples/functional_api.ipynb\<close>, and a
  continuous-integration workflow, \<^verbatim>\<open>.github/workflows/pr-gpu.yaml\<close>. The first
  part of this theory holds the definitions (the workflow, then the notebook), the second
  part the theorems.

  The notebook calls PyTorch, torchvision and tqdm, and two functions of
  \<^verbatim>\<open>composer.functional\<close>. None of that code is in the notebook. The calls into PyTorch
  and tqdm are parameters of the model (a record of functions that may fail); the two
  functions of \<^verbatim>\<open>composer.functional\<close> are modelled from the specification and marked
  so. What the platform does with the workflow file, and what torchvision's transforms
  accept, is modelled from their documentation and marked so.
\<close>

section \<open>The workflow file \<^verbatim>\<open>pr-gpu.yaml\<close>\<close>

subsection \<open>The document\<close>

text \<open>
  A YAML document is a tree of mappings, sequences and scalars. Mappings keep the order of
  their keys; scalars are kept as their text (\<^verbatim>\<open>1500\<close> and \<^verbatim>\<open>3.9\<close> included); a key with
  no value (\<^verbatim>\<open>pull_request_target:\<close>) has the value null.
\<close>

datatype yaml = YNull | YStr string | YMap "(string \<times> yaml) list" | YSeq "yaml list"

definition pr_gpu :: yaml where
  "pr_gpu = YMap [
     (''name'', YStr ''PR GPU tests''),
     (''on'', YMap [
        (''pull_request_target'', YNull),
        (''workflow_dispatch'', YNull)]),
     (''concurrency'', YMap [
        (''group'',
           YStr ''${{ github.workflow }}-${{ github.event.pull_request.number || github.ref }}''),
        (''cancel-in-progress'',
           YStr ''${{ github.ref != 'refs/heads/main' && github.ref != 'refs/heads/dev' }}'')]),
     (''jobs'', YMap [
        (''pytest-gpu'', YMap [
           (''uses'', YStr ''./.github/workflows/pytest-gpu.yaml''),
           (''strategy'', YMap [
              (''matrix'', YMap [
                 (''include'', YSeq [
                    YMap [
                      (''name'', YStr ''gpu-3.10-2.1''),
                      (''container'',
                         YStr ''mosaicml/pytorch:2.1.0_cu121-python3.10-ubuntu20.04''),
                      (''markers'',
                         YStr ''not daily and not remote and gpu and (doctest or not doctest)''),
                      (''pytest_command'', YStr ''coverage run -m pytest''),
                      (''composer_package_name'', YStr ''mosaicml'')]])])]),
           (''name'', YStr ''${{ matrix.name }}''),
           (''if'', YStr (''github.repository_owner == 'mosaicml'' @ [CHR 0x27])),
           (''with'', YMap [
              (''composer_package_name'', YStr ''${{ matrix.composer_package_name }}''),
              (''container'', YStr ''${{ matrix.container }}''),
              (''mcloud-timeout'', YStr ''1500''),
              (''name'', YStr ''${{ matrix.name }}''),
              (''pytest-command'', YStr ''${{ matrix.pytest_command }}''),
              (''pytest-markers'', YStr ''${{ matrix.markers }}''),
              (''python-version'', YStr ''3.9'')]),
           (''secrets'', YMap [
              (''mcloud-api-key'', YStr ''${{ secrets.MCLOUD_API_KEY }}'')])])])]"

text \<open>Reading the document: the keys of a mapping, the value under a key, the value at a path.\<close>

fun keys :: "yaml \<Rightarrow> string list" where
  "keys (YMap kvs) = map fst kvs"
| "keys _ = []"

fun field :: "string \<Rightarrow> yaml \<Rightarrow> yaml option" where
  "field k (YMap kvs) = map_of kvs k"
| "field k _ = None"

fun lookup :: "string list \<Rightarrow> yaml \<Rightarrow> yaml option" where
  "lookup [] y = Some y"
| "lookup (k # ks) y = (case field k y of None \<Rightarrow> None | Some v \<Rightarrow> lookup ks v)"

fun elements :: "yaml option \<Rightarrow> yaml list" where
  "elements (Some (YSeq ys)) = ys"
| "elements _ = []"

fun keys_at :: "string list \<Rightarrow> yaml \<Rightarrow> string list" where
  "keys_at p y = (case lookup p y of None \<Rightarrow> [] | Some v \<Rightarrow> keys v)"

definition triggers :: "yaml \<Rightarrow> string list" where
  "triggers w = keys_at [''on''] w"

definition jobs :: "yaml \<Rightarrow> string list" where
  "jobs w = keys_at [''jobs''] w"

definition job_keys :: "yaml \<Rightarrow> string \<Rightarrow> string list" where
  "job_keys w j = keys_at [''jobs'', j] w"

definition matrix_entries :: "yaml \<Rightarrow> string \<Rightarrow> yaml list" where
  "matrix_entries w j = elements (lookup [''jobs'', j, ''strategy'', ''matrix'', ''include''] w)"

subsection \<open>The surface as the specification words it\<close>

text \<open>
  The specification's sentence, read generously: the only triggers are pull-request
  triggers; the top level holds nothing but the name, the triggers, the concurrency group
  and the jobs; a job holds nothing but its name, the workflow it calls and the inputs it
  passes on, its matrix and its secrets; a matrix entry holds nothing but its name, a
  container image and test markers.
\<close>

definition claimed_surface :: "yaml \<Rightarrow> bool" where
  "claimed_surface w \<longleftrightarrow>
     set (triggers w) \<subseteq> {''pull_request'', ''pull_request_target''} \<and>
     set (keys w) \<subseteq> {''name'', ''on'', ''concurrency'', ''jobs''} \<and>
     list_all (\<lambda>j. set (job_keys w j) \<subseteq> {''name'', ''uses'', ''with'', ''strategy'', ''secrets''} \<and>
                  list_all (\<lambda>e. set (keys e) \<subseteq> {''name'', ''container'', ''markers''})
                    (matrix_entries w j))
       (jobs w)"

subsection \<open>The two expressions of the concurrency block\<close>

text \<open>
  The fields of the \<^verbatim>\<open>github\<close> context that the file reads. The number of the pull
  request is absent (null) on a run that no pull request started, such as a manual
  dispatch.
\<close>

record github =
  workflow :: string
  ref :: string
  pull_request_number :: "nat option"
  repository_owner :: string

text \<open>
  Modelled from the platform's documentation, the expression language being the platform's
  and not code of the repository: it compares strings ignoring case (``GitHub ignores case
  when comparing strings''). The model folds the letters A to Z; every other character is
  compared as it is.
\<close>

definition to_lower :: "char \<Rightarrow> char" where
  "to_lower c =
     (case map_of (zip ''ABCDEFGHIJKLMNOPQRSTUVWXYZ'' ''abcdefghijklmnopqrstuvwxyz'') c of
        None \<Rightarrow> c
      | Some l \<Rightarrow> l)"

definition expr_eq :: "string \<Rightarrow> string \<Rightarrow> bool" where
  "expr_eq a b \<longleftrightarrow> map to_lower a = map to_lower b"









text \<open>\<^verbatim>\<open>if: github.repository_owner == 'mosaicml'\<close>\<close>

definition job_enabled :: "github \<Rightarrow> bool" where
  "job_enabled gh \<longleftrightarrow> expr_eq (repository_owner gh) ''mosaicml''"

section \<open>The notebook: \<^verbatim>\<open>train_and_eval\<close>\<close>

subsection \<open>Errors, calls and the framework\<close>

text \<open>
  An exception raised inside a library call is identified by its text. The notebook's own
  code can raise one error only, the \<^verbatim>\<open>ZeroDivisionError\<close> of the division in
  \<^verbatim>\<open>100 * num_right / eval_size\<close>; it has no \<^verbatim>\<open>raise\<close>, no \<^verbatim>\<open>try\<close> and no exception
  class.
\<close>

type_synonym exn = string

datatype error = ZeroDivisionError | LibraryError exn

datatype device = Cuda | Cpu

text \<open>
  The two lines that \<^verbatim>\<open>train_and_eval\<close> prints, with the values they interpolate.
  \<^verbatim>\<open>acc_percent\<close> is a Python float, the correctly rounded quotient of two integers; the
  model keeps the exact quotient. Rounding is monotone and 0 and 100 are floats, so the
  float lies between 0 and 100 whenever the exact quotient does.
\<close>

datatype message = Beginning_epoch nat | Validation_accuracy nat rat

text \<open>
  The library calls of \<^verbatim>\<open>train_and_eval\<close>, in the order of their first occurrence in
  the source. \<^verbatim>\<open>Next_train\<close> and \<^verbatim>\<open>Next_test\<close> are the fetches of the two \<^verbatim>\<open>for\<close>
  loops over the loaders; \<^verbatim>\<open>Set_postfix_str\<close> stands for \<^verbatim>\<open>loss.item()\<close>, the formatting
  and \<^verbatim>\<open>progress_bar.set_postfix_str\<close>; \<^verbatim>\<open>Eq_sum\<close> stands for the comparison
  \<^verbatim>\<open>==\<close>, \<^verbatim>\<open>.sum()\<close> and \<^verbatim>\<open>.item()\<close>.
\<close>

datatype call =
    Manual_seed int
  | Cuda_is_available
  | Model_to device
  | Adam
  | Print message
  | Model_train
  | Tqdm
  | Next_train
  | Tensor_to device
  | Labels_to device
  | Forward
  | Cross_entropy
  | Set_postfix_str
  | Backward
  | Opt_step
  | Opt_zero_grad
  | Model_eval
  | Next_test
  | Argmax
  | Eq_sum

text \<open>
  The framework: the calls of the body of \<^verbatim>\<open>train_and_eval\<close>, once its names are
  resolved (see \<open>resolve\<close> below). \<open>'w\<close> is everything the
  framework owns and mutates: the model passed to \<^verbatim>\<open>train_and_eval\<close> (its parameters,
  buffers, gradients and mode), the optimizer, the random generator, the progress bar and
  the output stream. \<open>'t\<close> is the type of tensors; a tensor of labels is the list of its
  class indices. Every call either raises (\<open>Inl\<close>) or returns (\<open>Inr\<close>). The calls
  that are given tensors only and return a tensor (moving a tensor to the device, the
  loss, \<^verbatim>\<open>argmax\<close>) are functions of their arguments.
\<close>

record ('w, 't) framework =
  manual_seed :: "int \<Rightarrow> 'w \<Rightarrow> exn + 'w"
  cuda_is_available :: "exn + bool"
  model_to :: "device \<Rightarrow> 'w \<Rightarrow> exn + 'w"
  adam :: "'w \<Rightarrow> exn + 'w"
  print_line :: "message \<Rightarrow> 'w \<Rightarrow> exn + 'w"
  model_train :: "'w \<Rightarrow> exn + 'w"
  tqdm :: "'w \<Rightarrow> exn + 'w"
  tensor_to :: "device \<Rightarrow> 't \<Rightarrow> exn + 't"
  labels_to :: "device \<Rightarrow> nat list \<Rightarrow> exn + nat list"
  forward :: "'t \<Rightarrow> 'w \<Rightarrow> exn + 't \<times> 'w"
  cross_entropy :: "'t \<Rightarrow> nat list \<Rightarrow> exn + 't"
  set_postfix_str :: "'t \<Rightarrow> 'w \<Rightarrow> exn + 'w"
  backward :: "'t \<Rightarrow> 'w \<Rightarrow> exn + 'w"
  opt_step :: "'w \<Rightarrow> exn + 'w"
  opt_zero_grad :: "'w \<Rightarrow> exn + 'w"
  model_eval :: "'w \<Rightarrow> exn + 'w"
  argmax :: "'t \<Rightarrow> exn + nat list"

subsection \<open>Programs: a trace of calls and an outcome\<close>

text \<open>
  A piece of notebook code takes the framework's state and yields the library calls it
  made, in order, each with the exception it raised if it raised one, and its outcome: an
  error, or a value and the new state.
\<close>

type_synonym entry = "call \<times> exn option"

type_synonym ('a, 'w) prog = "'w \<Rightarrow> entry list \<times> (error + 'a \<times> 'w)"

definition ret :: "'a \<Rightarrow> ('a, 'w) prog" where
  "ret a w = ([], Inr (a, w))"

text \<open>Sequencing: the second statement runs only if the first one did not raise.\<close>

definition and_then :: "('a, 'w) prog \<Rightarrow> ('a \<Rightarrow> ('b, 'w) prog) \<Rightarrow> ('b, 'w) prog" where
  "and_then m f w =
     (case m w of
        (tr, Inl e) \<Rightarrow> (tr, Inl e)
      | (tr, Inr (a, w')) \<Rightarrow> (case f a w' of (tr', r) \<Rightarrow> (tr @ tr', r)))"

text \<open>
  A library call: one entry in the trace; its exception, if any, is the outcome. The three
  forms are a call that returns a value and changes the state, a call that only changes
  the state, and a call that only returns a value.
\<close>

definition lib_call :: "call \<Rightarrow> ('w \<Rightarrow> exn + 'a \<times> 'w) \<Rightarrow> ('a, 'w) prog" where
  "lib_call c f w =
     (case f w of
        Inl x \<Rightarrow> ([(c, Some x)], Inl (LibraryError x))
      | Inr r \<Rightarrow> ([(c, None)], Inr r))"

definition effect :: "call \<Rightarrow> ('w \<Rightarrow> exn + 'w) \<Rightarrow> (unit, 'w) prog" where
  "effect c f = lib_call c (\<lambda>w. case f w of Inl x \<Rightarrow> Inl x | Inr w' \<Rightarrow> Inr ((), w'))"

definition query :: "call \<Rightarrow> exn + 'a \<Rightarrow> ('a, 'w) prog" where
  "query c r = lib_call c (\<lambda>w. case r of Inl x \<Rightarrow> Inl x | Inr a \<Rightarrow> Inr (a, w))"

text \<open>Python's \<^verbatim>\<open>a / b\<close> on integers: the quotient, or \<^verbatim>\<open>ZeroDivisionError\<close>.\<close>

definition true_div :: "int \<Rightarrow> int \<Rightarrow> (rat, 'w) prog" where
  "true_div a b w = ([], if b = 0 then Inl ZeroDivisionError else Inr (of_int a / of_int b, w))"

subsection \<open>Loaders and loops\<close>

text \<open>
  A batch is the pair \<^verbatim>\<open>X, y\<close>. A loader is an iterable: \<open>loader k\<close> is what it yields
  when the loop of epoch \<open>k\<close> iterates it, item by item; an item \<open>Inl x\<close> is a fetch that
  raises \<open>x\<close>. (A shuffling loader yields a different list in every epoch.)
\<close>

type_synonym 't batch = "'t \<times> nat list"

type_synonym 't loader = "nat \<Rightarrow> (exn + 't batch) list"

text \<open>
  \<^verbatim>\<open>for X, y in loader: body\<close>, with the variables the body updates passed along. Every
  fetch is a call, the last one too (the one that ends the loop).
\<close>

fun for_batches ::
  "call \<Rightarrow> ('t batch \<Rightarrow> 'a \<Rightarrow> ('a, 'w) prog) \<Rightarrow> (exn + 't batch) list \<Rightarrow> 'a \<Rightarrow> ('a, 'w) prog"
where
  "for_batches nxt body [] acc = and_then (query nxt (Inr ())) (\<lambda>_. ret acc)"
| "for_batches nxt body (item # rest) acc =
     and_then (query nxt item) (\<lambda>b.
     and_then (body b acc) (\<lambda>acc'.
     for_batches nxt body rest acc'))"

text \<open>\<^verbatim>\<open>for epoch in range(n): body\<close>\<close>

fun for_range :: "(nat \<Rightarrow> (unit, 'w) prog) \<Rightarrow> nat list \<Rightarrow> (unit, 'w) prog" where
  "for_range body [] = ret ()"
| "for_range body (k # ks) = and_then (body k) (\<lambda>_. for_range body ks)"

subsection \<open>The function\<close>

text \<open>
  \<^verbatim>\<open>(y_hat.argmax(dim=1) == y).sum().item()\<close>, on the list of predicted classes and the
  list of labels: the number of positions where they agree. Two one-dimensional tensors of
  different sizes are compared by broadcasting when one of them has size one, and the
  comparison raises otherwise.
\<close>

definition eq_sum :: "nat list \<Rightarrow> nat list \<Rightarrow> exn + int" where
  "eq_sum preds y =
     (if length preds = length y then Inr (int (length (filter (\<lambda>(p, l). p = l) (zip preds y))))
      else if length preds = 1 then Inr (int (length (filter (\<lambda>l. hd preds = l) y)))
      else if length y = 1 then Inr (int (length (filter (\<lambda>p. p = hd y) preds)))
      else Inl ''RuntimeError'')"

text \<open>The body of the training loop (source lines 157 to 164).\<close>

definition train_step :: "('w, 't) framework \<Rightarrow> device \<Rightarrow> 't batch \<Rightarrow> (unit, 'w) prog" where
  "train_step L dev b =
     (case b of (X, y) \<Rightarrow>
       and_then (query (Tensor_to dev) (tensor_to L dev X)) (\<lambda>X.
       and_then (query (Labels_to dev) (labels_to L dev y)) (\<lambda>y.
       and_then (lib_call Forward (forward L X)) (\<lambda>y_hat.
       and_then (query Cross_entropy (cross_entropy L y_hat y)) (\<lambda>loss.
       and_then (effect Set_postfix_str (set_postfix_str L loss)) (\<lambda>_.
       and_then (effect Backward (backward L loss)) (\<lambda>_.
       and_then (effect Opt_step (opt_step L)) (\<lambda>_.
       effect Opt_zero_grad (opt_zero_grad L)))))))))"

text \<open>The body of the evaluation loop (source lines 170 to 174).\<close>

definition eval_step ::
  "('w, 't) framework \<Rightarrow> device \<Rightarrow> 't batch \<Rightarrow> int \<times> int \<Rightarrow> (int \<times> int, 'w) prog" where
  "eval_step L dev b acc =
     (case (b, acc) of ((X, y), (num_right, eval_size)) \<Rightarrow>
       and_then (query (Tensor_to dev) (tensor_to L dev X)) (\<lambda>X.
       and_then (query (Labels_to dev) (labels_to L dev y)) (\<lambda>y.
       and_then (lib_call Forward (forward L X)) (\<lambda>y_hat.
       and_then (query Argmax (argmax L y_hat)) (\<lambda>preds.
       and_then (query Eq_sum (eq_sum preds y)) (\<lambda>n.
       ret (num_right + n, eval_size + int (length y))))))))"

text \<open>The training phase of an epoch (source lines 153 to 164).\<close>

definition training :: "('w, 't) framework \<Rightarrow> device \<Rightarrow> (exn + 't batch) list \<Rightarrow> (unit, 'w) prog" where
  "training L dev train_batches =
     and_then (effect Model_train (model_train L)) (\<lambda>_.
     and_then (effect Tqdm (tqdm L)) (\<lambda>_.
     for_batches Next_train (\<lambda>b _. train_step L dev b) train_batches ()))"

text \<open>
  The evaluation phase of an epoch (source lines 166 to 174): \<^verbatim>\<open>model.eval()\<close> and the
  loop over the test loader, which yields \<^verbatim>\<open>num_right\<close> and \<^verbatim>\<open>eval_size\<close>.
\<close>

definition evaluation ::
  "('w, 't) framework \<Rightarrow> device \<Rightarrow> (exn + 't batch) list \<Rightarrow> (int \<times> int, 'w) prog" where
  "evaluation L dev test_batches =
     and_then (effect Model_eval (model_eval L)) (\<lambda>_.
     for_batches Next_test (eval_step L dev) test_batches (0, 0))"

definition print :: "('w, 't) framework \<Rightarrow> message \<Rightarrow> (unit, 'w) prog" where
  "print L m = effect (Print m) (print_line L m)"

text \<open>The end of an epoch (source lines 166 to 176): evaluation, division, printing.\<close>

definition evaluate ::
  "('w, 't) framework \<Rightarrow> device \<Rightarrow> nat \<Rightarrow> (exn + 't batch) list \<Rightarrow> (unit, 'w) prog" where
  "evaluate L dev epoch test_batches =
     and_then (evaluation L dev test_batches) (\<lambda>(num_right, eval_size).
     and_then (true_div (100 * num_right) eval_size) (\<lambda>acc_percent.
     print L (Validation_accuracy epoch acc_percent)))"

text \<open>One epoch (source lines 152 to 176).\<close>

definition epoch_body ::
  "('w, 't) framework \<Rightarrow> device \<Rightarrow> 't loader \<Rightarrow> 't loader \<Rightarrow> nat \<Rightarrow> (unit, 'w) prog" where
  "epoch_body L dev train_loader test_loader epoch =
     and_then (print L (Beginning_epoch epoch)) (\<lambda>_.
     and_then (training L dev (train_loader epoch)) (\<lambda>_.
     evaluate L dev epoch (test_loader epoch)))"

subsection \<open>The names the function reads\<close>

text \<open>
  The body of \<^verbatim>\<open>train_and_eval\<close> names its three parameters and, besides them, names
  that are bound at module level: \<^verbatim>\<open>num_epochs\<close> (set to 5 in the cell that defines the
  function), the imports \<^verbatim>\<open>torch\<close>, \<^verbatim>\<open>F\<close> and \<^verbatim>\<open>tqdm\<close>, and the built-in
  \<^verbatim>\<open>print\<close>, which is looked up through the module's names. The methods of \<^verbatim>\<open>Net\<close>
  read \<^verbatim>\<open>nn\<close>, \<^verbatim>\<open>F\<close> and \<^verbatim>\<open>torch\<close>. The built-ins \<^verbatim>\<open>range\<close> and \<^verbatim>\<open>len\<close>
  and the arithmetic of integers have their standard meaning, which the function writes
  out: the list of the epochs, the length of the labels, the sums and the quotient.

  A module is what its name gives access to: its functions, and the methods of the
  objects those functions return (the optimizer that \<^verbatim>\<open>torch.optim.Adam\<close> returns, the
  loss that \<^verbatim>\<open>F.cross_entropy\<close> returns, the progress bar that \<^verbatim>\<open>tqdm\<close> returns, the
  layers that the constructors of \<^verbatim>\<open>nn\<close> return). A layer is the function that calling
  it is.
\<close>

record ('w, 't) torch_module =
  torch_manual_seed :: "int \<Rightarrow> 'w \<Rightarrow> exn + 'w"
  torch_cuda_is_available :: "exn + bool"
  torch_optim_Adam :: "'w \<Rightarrow> exn + 'w"
  step_method :: "'w \<Rightarrow> exn + 'w"
  zero_grad_method :: "'w \<Rightarrow> exn + 'w"
  torch_flatten :: "'t \<Rightarrow> nat \<Rightarrow> exn + 't"

record ('w, 't) functional_module =
  F_relu :: "'t \<Rightarrow> exn + 't"
  F_cross_entropy :: "'t \<Rightarrow> nat list \<Rightarrow> exn + 't"
  backward_method :: "'t \<Rightarrow> 'w \<Rightarrow> exn + 'w"

record ('w, 't) tqdm_module =
  tqdm_new :: "'w \<Rightarrow> exn + 'w"
  set_postfix_str_method :: "'t \<Rightarrow> 'w \<Rightarrow> exn + 'w"

type_synonym ('w, 't) callable = "'t \<Rightarrow> 'w \<Rightarrow> exn + 't \<times> 'w"

record ('w, 't) nn_module =
  nn_Conv2d :: "nat \<Rightarrow> nat \<Rightarrow> nat \<times> nat \<Rightarrow> nat \<Rightarrow> 'w \<Rightarrow> exn + ('w, 't) callable \<times> 'w"
  nn_BatchNorm2d :: "nat \<Rightarrow> 'w \<Rightarrow> exn + ('w, 't) callable \<times> 'w"
  nn_AdaptiveAvgPool2d :: "nat \<Rightarrow> 'w \<Rightarrow> exn + ('w, 't) callable \<times> 'w"
  nn_Linear :: "nat \<Rightarrow> nat \<Rightarrow> 'w \<Rightarrow> exn + ('w, 't) callable \<times> 'w"

text \<open>
  The module-level bindings of the notebook that matter here: the three data bindings of
  the first cells and the names above. (The field for the name \<^verbatim>\<open>tqdm\<close> is called
  \<open>tqdm_binding\<close>, the name \<open>tqdm\<close> being taken by the framework's call.)
\<close>

record ('w, 't) globals =
  datadir :: string
  batch_size :: int
  num_epochs :: int
  torch :: "('w, 't) torch_module"
  nn :: "('w, 't) nn_module"
  F :: "('w, 't) functional_module"
  tqdm_binding :: "('w, 't) tqdm_module"
  print_builtin :: "message \<Rightarrow> 'w \<Rightarrow> exn + 'w"

text \<open>
  The methods of the objects that \<^verbatim>\<open>train_and_eval\<close> is given: those of the model
  (\<^verbatim>\<open>to\<close>, \<^verbatim>\<open>train\<close>, \<^verbatim>\<open>eval\<close>, the call, and \<^verbatim>\<open>argmax\<close> of the scores the call
  returns) and those of the tensors that the loaders yield (\<^verbatim>\<open>X.to\<close>, \<^verbatim>\<open>y.to\<close>).
\<close>

record ('w, 't) methods =
  to_method :: "device \<Rightarrow> 'w \<Rightarrow> exn + 'w"
  train_method :: "'w \<Rightarrow> exn + 'w"
  eval_method :: "'w \<Rightarrow> exn + 'w"
  call_method :: "'t \<Rightarrow> 'w \<Rightarrow> exn + 't \<times> 'w"
  argmax_method :: "'t \<Rightarrow> exn + nat list"
  X_to_method :: "device \<Rightarrow> 't \<Rightarrow> exn + 't"
  y_to_method :: "device \<Rightarrow> nat list \<Rightarrow> exn + nat list"

text \<open>
  Name resolution: every call of the body, looked up where the source looks it up, in a
  module-level binding or in an object the function was given.
\<close>

definition resolve :: "('w, 't) globals \<Rightarrow> ('w, 't) methods \<Rightarrow> ('w, 't) framework" where
  "resolve G A = \<lparr>
     manual_seed = torch_manual_seed (torch G),
     cuda_is_available = torch_cuda_is_available (torch G),
     model_to = to_method A,
     adam = torch_optim_Adam (torch G),
     print_line = print_builtin G,
     model_train = train_method A,
     tqdm = tqdm_new (tqdm_binding G),
     tensor_to = X_to_method A,
     labels_to = y_to_method A,
     forward = call_method A,
     cross_entropy = F_cross_entropy (F G),
     set_postfix_str = set_postfix_str_method (tqdm_binding G),
     backward = backward_method (F G),
     opt_step = step_method (torch G),
     opt_zero_grad = zero_grad_method (torch G),
     model_eval = eval_method A,
     argmax = argmax_method A\<rparr>"

text \<open>
  \<^verbatim>\<open>def train_and_eval(model, train_loader, test_loader)\<close> (source lines 144 to 176). The
  argument \<^verbatim>\<open>model\<close> is its methods and its part of the state \<open>'w\<close> the program starts
  in. \<^verbatim>\<open>num_epochs\<close> is read from the module, not passed. \<^verbatim>\<open>range\<close> of a negative number
  is empty.
\<close>

definition train_and_eval ::
  "('w, 't) globals \<Rightarrow> ('w, 't) methods \<Rightarrow> 't loader \<Rightarrow> 't loader \<Rightarrow> (unit, 'w) prog" where
  "train_and_eval G A train_loader test_loader =
     (let L = resolve G A in
      and_then (effect (Manual_seed 42) (manual_seed L 42)) (\<lambda>_.
      and_then (query Cuda_is_available (cuda_is_available L)) (\<lambda>cuda.
      let dev = (if cuda then Cuda else Cpu) in
      and_then (effect (Model_to dev) (model_to L dev)) (\<lambda>_.
      and_then (effect Adam (adam L)) (\<lambda>_.
      for_range (epoch_body L dev train_loader test_loader) [0..<nat (num_epochs G)])))))"

subsection \<open>The class \<^verbatim>\<open>Net\<close> as code\<close>






subsection \<open>Reading a run\<close>

definition calls :: "entry list \<Rightarrow> call list" where
  "calls tr = map fst tr"


text \<open>
  A run handles nothing and retries nothing when a call that raised is the last call of
  the run and its exception is the outcome; when no call raised, the run returned or the
  division raised.
\<close>

definition ok :: "entry \<Rightarrow> bool" where
  "ok en \<longleftrightarrow> snd en = None"

fun propagated :: "entry list \<times> (error + 'a) \<Rightarrow> bool" where
  "propagated (tr, Inr _) = list_all ok tr"
| "propagated (tr, Inl ZeroDivisionError) = list_all ok tr"
| "propagated (tr, Inl (LibraryError x)) =
     (tr \<noteq> [] \<and> snd (last tr) = Some x \<and> list_all ok (butlast tr))"




















text \<open>The calls of the evaluation phase.\<close>

definition eval_calls :: "device \<Rightarrow> call set" where
  "eval_calls dev = {Model_eval, Next_test, Tensor_to dev, Labels_to dev, Forward, Argmax, Eq_sum}"

subsection \<open>A small framework to run the function on\<close>

text \<open>
  A state is the number of optimizer steps taken so far and the model's training flag. A
  tensor is a list of numbers, and the network predicts, for every example, the example
  itself.
\<close>

definition demo :: "(nat \<times> bool, nat list) framework" where
  "demo = \<lparr>
     manual_seed = (\<lambda>s w. Inr w),
     cuda_is_available = Inr False,
     model_to = (\<lambda>d w. Inr w),
     adam = (\<lambda>w. Inr w),
     print_line = (\<lambda>m w. Inr w),
     model_train = (\<lambda>w. Inr (fst w, True)),
     tqdm = (\<lambda>w. Inr w),
     tensor_to = (\<lambda>d x. Inr x),
     labels_to = (\<lambda>d y. Inr y),
     forward = (\<lambda>x w. Inr (x, w)),
     cross_entropy = (\<lambda>y_hat y. Inr y_hat),
     set_postfix_str = (\<lambda>l w. Inr w),
     backward = (\<lambda>l w. Inr w),
     opt_step = (\<lambda>w. Inr (Suc (fst w), snd w)),
     opt_zero_grad = (\<lambda>w. Inr w),
     model_eval = (\<lambda>w. Inr (fst w, False)),
     argmax = (\<lambda>t. Inr t)\<rparr>"

text \<open>
  The same, as module-level bindings and methods: \<open>resolve demo_globals demo_methods\<close> is
  \<open>demo\<close>. \<open>out_of_memory\<close> is a model whose call raises; \<open>no_seed\<close>, \<open>no_loss\<close>,
  \<open>no_bar\<close> and \<open>no_layers\<close> are modules with one function that raises.
\<close>

definition demo_torch :: "(nat \<times> bool, nat list) torch_module" where
  "demo_torch = \<lparr>
     torch_manual_seed = (\<lambda>s w. Inr w),
     torch_cuda_is_available = Inr False,
     torch_optim_Adam = (\<lambda>w. Inr w),
     step_method = (\<lambda>w. Inr (Suc (fst w), snd w)),
     zero_grad_method = (\<lambda>w. Inr w),
     torch_flatten = (\<lambda>x d. Inr x)\<rparr>"

definition demo_F :: "(nat \<times> bool, nat list) functional_module" where
  "demo_F = \<lparr>
     F_relu = (\<lambda>x. Inr x),
     F_cross_entropy = (\<lambda>y_hat y. Inr y_hat),
     backward_method = (\<lambda>l w. Inr w)\<rparr>"

definition demo_tqdm :: "(nat \<times> bool, nat list) tqdm_module" where
  "demo_tqdm = \<lparr>tqdm_new = (\<lambda>w. Inr w), set_postfix_str_method = (\<lambda>l w. Inr w)\<rparr>"

definition demo_nn :: "(nat \<times> bool, nat list) nn_module" where
  "demo_nn = \<lparr>
     nn_Conv2d = (\<lambda>i out k s w. Inr ((\<lambda>x w. Inr (x, w)), w)),
     nn_BatchNorm2d = (\<lambda>n w. Inr ((\<lambda>x w. Inr (x, w)), w)),
     nn_AdaptiveAvgPool2d = (\<lambda>n w. Inr ((\<lambda>x w. Inr (x, w)), w)),
     nn_Linear = (\<lambda>i out w. Inr ((\<lambda>x w. Inr (map (\<lambda>v. v + out) x, w)), w))\<rparr>"

definition demo_globals :: "(nat \<times> bool, nat list) globals" where
  "demo_globals = \<lparr>datadir = ''./data'', batch_size = 1024, num_epochs = 5,
     torch = demo_torch, nn = demo_nn, F = demo_F, tqdm_binding = demo_tqdm,
     print_builtin = (\<lambda>m w. Inr w)\<rparr>"

definition demo_methods :: "(nat \<times> bool, nat list) methods" where
  "demo_methods = \<lparr>
     to_method = (\<lambda>d w. Inr w),
     train_method = (\<lambda>w. Inr (fst w, True)),
     eval_method = (\<lambda>w. Inr (fst w, False)),
     call_method = (\<lambda>x w. Inr (x, w)),
     argmax_method = (\<lambda>t. Inr t),
     X_to_method = (\<lambda>d x. Inr x),
     y_to_method = (\<lambda>d y. Inr y)\<rparr>"

definition out_of_memory :: "(nat \<times> bool, nat list) methods" where
  "out_of_memory = demo_methods\<lparr>call_method := (\<lambda>x w. Inl ''CUDA out of memory'')\<rparr>"





definition demo_train :: "nat list loader" where
  "demo_train k = [Inr ([1, 2], [1, 0]), Inr ([0], [0])]"

definition demo_test :: "nat list loader" where
  "demo_test k = [Inr ([1, 2, 0, 1], [1, 0, 0, 1])]"





section \<open>The notebook: the two calls into \<^verbatim>\<open>composer.functional\<close>\<close>

subsection \<open>The transform pipelines\<close>

text \<open>
  The transform objects of the notebook's lists, and the values that flow through a
  pipeline: an image, the tensor of one image, or a batch of such tensors. \<^verbatim>\<open>ToTensor\<close>
  and \<^verbatim>\<open>Normalize\<close> are torchvision's; what they compute is a parameter.
\<close>

datatype transform = ToTensor | Normalize "rat list" "rat list" | Colout_batch

datatype ('i, 't) sample = PIL 'i | Tensor 't | Batch "'t list"

fun is_batch :: "('i, 't) sample \<Rightarrow> bool" where
  "is_batch (Batch ts) = True"
| "is_batch _ = False"

record ('i, 't) vision =
  to_tensor :: "'i \<Rightarrow> 't"
  normalize :: "rat list \<Rightarrow> rat list \<Rightarrow> 't \<Rightarrow> 't"

text \<open>
  Modelled from the spec: \<^verbatim>\<open>colout_batch\<close> of \<^verbatim>\<open>composer.functional\<close>, which is not in
  the source files. The specification: it ``consumes a batch of input tensors and returns
  a batch of transformed tensors; exact algorithm is opaque and owned by the external
  library''. So on a batch it returns the batch of the transformed tensors, and the
  algorithm that transforms a tensor is a parameter.
\<close>

definition colout_batch :: "('t \<Rightarrow> 't) \<Rightarrow> 't list \<Rightarrow> 't list" where
  "colout_batch algorithm batch = map algorithm batch"

text \<open>
  Applying one transform. Modelled from torchvision's documentation, the library not being
  part of the repository: \<^verbatim>\<open>ToTensor\<close> ``converts a PIL Image or numpy.ndarray
  (H x W x C) to a torch.FloatTensor of shape (C x H x W)'', one image to the tensor of
  that image, and raises a \<^verbatim>\<open>TypeError\<close> on anything else; \<^verbatim>\<open>Normalize\<close> normalizes
  ``a tensor image'' or a batch of them, and raises a \<^verbatim>\<open>TypeError\<close> on an image that is
  not a tensor. The specification says what \<^verbatim>\<open>colout_batch\<close> does on a batch only; what it
  does on any other value is left to the parameter \<open>other\<close>.
\<close>

fun apply_transform ::
  "('i, 't) vision \<Rightarrow> ('t \<Rightarrow> 't) \<Rightarrow> (('i, 't) sample \<Rightarrow> exn + ('i, 't) sample) \<Rightarrow> transform
     \<Rightarrow> ('i, 't) sample \<Rightarrow> exn + ('i, 't) sample"
where
  "apply_transform V alg other ToTensor (PIL i) = Inr (Tensor (to_tensor V i))"
| "apply_transform V alg other ToTensor (Tensor t) = Inl ''TypeError''"
| "apply_transform V alg other ToTensor (Batch ts) = Inl ''TypeError''"
| "apply_transform V alg other (Normalize mean std) (Tensor t) =
     Inr (Tensor (normalize V mean std t))"
| "apply_transform V alg other (Normalize mean std) (Batch ts) =
     Inr (Batch (map (normalize V mean std) ts))"
| "apply_transform V alg other (Normalize mean std) (PIL i) = Inl ''TypeError''"
| "apply_transform V alg other Colout_batch (Batch ts) = Inr (Batch (colout_batch alg ts))"
| "apply_transform V alg other Colout_batch (Tensor t) = other (Tensor t)"
| "apply_transform V alg other Colout_batch (PIL i) = other (PIL i)"

text \<open>\<^verbatim>\<open>transforms.Compose\<close>: the transforms of the list, one after the other.\<close>

fun Compose ::
  "('i, 't) vision \<Rightarrow> ('t \<Rightarrow> 't) \<Rightarrow> (('i, 't) sample \<Rightarrow> exn + ('i, 't) sample)
     \<Rightarrow> transform list \<Rightarrow> ('i, 't) sample \<Rightarrow> exn + ('i, 't) sample"
where
  "Compose V alg other [] s = Inr s"
| "Compose V alg other (t # ts) s =
     (case apply_transform V alg other t s of
        Inl e \<Rightarrow> Inl e
      | Inr s' \<Rightarrow> Compose V alg other ts s')"

text \<open>
  The value that the composed transform hands to a transform \<open>t\<close> of its list, when the
  transforms before \<open>t\<close> return; \<open>None\<close> when one of them raises or \<open>t\<close> is not in the list.
\<close>

fun handed_to ::
  "('i, 't) vision \<Rightarrow> ('t \<Rightarrow> 't) \<Rightarrow> (('i, 't) sample \<Rightarrow> exn + ('i, 't) sample)
     \<Rightarrow> transform \<Rightarrow> transform list \<Rightarrow> ('i, 't) sample \<Rightarrow> ('i, 't) sample option"
where
  "handed_to V alg other t [] s = None"
| "handed_to V alg other t (u # us) s =
     (if u = t then Some s
      else case apply_transform V alg other u s of
             Inl e \<Rightarrow> None
           | Inr s' \<Rightarrow> handed_to V alg other t us s')"

text \<open>Source lines 214 to 223. The slice \<^verbatim>\<open>shared_transforms[:]\<close> is a copy of the list.\<close>

definition shared_transforms :: "transform list" where
  "shared_transforms = [ToTensor, Normalize [1/2, 1/2, 1/2] [1/2, 1/2, 1/2]]"

definition train_transforms :: "transform list" where
  "train_transforms = shared_transforms @ [Colout_batch]"

definition test_transform ::
  "('i, 't) vision \<Rightarrow> ('t \<Rightarrow> 't) \<Rightarrow> (('i, 't) sample \<Rightarrow> exn + ('i, 't) sample)
     \<Rightarrow> ('i, 't) sample \<Rightarrow> exn + ('i, 't) sample"
where
  "test_transform V alg other = Compose V alg other shared_transforms"

definition train_transform ::
  "('i, 't) vision \<Rightarrow> ('t \<Rightarrow> 't) \<Rightarrow> (('i, 't) sample \<Rightarrow> exn + ('i, 't) sample)
     \<Rightarrow> ('i, 't) sample \<Rightarrow> exn + ('i, 't) sample"
where
  "train_transform V alg other = Compose V alg other train_transforms"

text \<open>
  An instance to run the pipelines on: an image of one pixel is the list of its three
  channel values, from 0 to 255; its tensor is the list of the values divided by 255;
  normalizing subtracts the mean of the channel and divides by its deviation. An
  augmentation that swaps the first two channels, and a \<^verbatim>\<open>colout_batch\<close> that applies it
  to one tensor as it does to each tensor of a batch.
\<close>

definition demo_vision :: "(nat list, rat list) vision" where
  "demo_vision =
     \<lparr>to_tensor = map (\<lambda>p. of_nat p / 255),
      normalize = (\<lambda>mean std t. map (\<lambda>(x, m, d). (x - m) / d) (zip t (zip mean std)))\<rparr>"

fun swap_channels :: "rat list \<Rightarrow> rat list" where
  "swap_channels (a # b # t) = b # a # t"
| "swap_channels t = t"

fun on_one_tensor :: "(nat list, rat list) sample \<Rightarrow> exn + (nat list, rat list) sample" where
  "on_one_tensor (Tensor t) = Inr (Tensor (swap_channels t))"
| "on_one_tensor s = Inl ''TypeError''"

subsection \<open>The model and its surgery\<close>

text \<open>
  The graph of \<^verbatim>\<open>Net\<close>: the operations of its \<^verbatim>\<open>forward\<close> (source lines 116 to 124) in
  order, with the layers of \<^verbatim>\<open>__init__\<close> (lines 108 to 114). A convolution has its input
  channels, output channels, kernel size and stride.
\<close>

datatype layer =
    Conv2d nat nat "nat \<times> nat" nat
  | BatchNorm2d nat
  | AdaptiveAvgPool2d nat
  | Linear nat nat
  | Relu
  | Flatten nat
  | SqueezeExcite nat nat

definition Net :: "layer list" where
  "Net = [Conv2d 3 16 (3, 3) 2, Relu,
          Conv2d 16 32 (3, 3) 1,
          BatchNorm2d 32, Relu,
          AdaptiveAvgPool2d 1, Flatten 1,
          Linear 32 128, Relu,
          Linear 128 64, Relu,
          Linear 64 10]"

text \<open>
  Modelled from the spec: \<^verbatim>\<open>apply_squeeze_excite\<close> of \<^verbatim>\<open>composer.functional\<close>, which is
  not in the source files. The specification: it ``consumes a constructed model graph plus
  two numeric configuration parameters (a latent-channel width and a minimum-channel
  threshold) and mutates the model in place by inserting additional computation after
  qualifying layers''. The notebook's comment says which layers qualify: ``only add it
  after convs with a minimum number of channels''. The channels of a convolution are taken
  to be the smaller of its input and output channels, which agrees with the notebook's
  account that the module is added after the larger of the two convolutions of \<^verbatim>\<open>Net\<close>.
  The inserted block has the width of the convolution's output and the latent width given.
\<close>

fun qualifies :: "nat \<Rightarrow> layer \<Rightarrow> bool" where
  "qualifies min_channels (Conv2d c_in c_out k s) = (min_channels \<le> min c_in c_out)"
| "qualifies min_channels _ = False"

fun out_channels :: "layer \<Rightarrow> nat" where
  "out_channels (Conv2d c_in c_out k s) = c_out"
| "out_channels _ = 0"

fun insert_squeeze_excite :: "nat \<Rightarrow> nat \<Rightarrow> layer list \<Rightarrow> layer list" where
  "insert_squeeze_excite latent_channels min_channels [] = []"
| "insert_squeeze_excite latent_channels min_channels (l # ls) =
     (if qualifies min_channels l
      then l # SqueezeExcite (out_channels l) latent_channels
             # insert_squeeze_excite latent_channels min_channels ls
      else l # insert_squeeze_excite latent_channels min_channels ls)"

text \<open>
  Model objects live in a store; the address of an object is its index. A reference held
  by the notebook always points into the store.
\<close>

type_synonym store = "layer list list"

text \<open>
  Modelled from the spec: the call \<^verbatim>\<open>apply_squeeze_excite(model, latent_channels,
  min_channels)\<close> mutates the object that \<^verbatim>\<open>model\<close> refers to, in place.
\<close>

definition apply_squeeze_excite :: "nat \<Rightarrow> nat \<Rightarrow> nat \<Rightarrow> store \<Rightarrow> store" where
  "apply_squeeze_excite model latent_channels min_channels h =
     (if model < length h
      then h[model := insert_squeeze_excite latent_channels min_channels (h ! model)]
      else h)"

text \<open>
  The notebook's top level, as far as the model object is concerned: the store, the
  binding of the variable \<^verbatim>\<open>model\<close>, and the calls of \<^verbatim>\<open>train_and_eval\<close> made so far,
  each with the object it was given and that object's graph at the call.
  \<^verbatim>\<open>train_and_eval\<close> rebinds its own parameter only (\<^verbatim>\<open>model = model.to(device)\<close>,
  which returns the module itself) and leaves the graph as it is.
\<close>

record notebook =
  objects :: store
  model :: nat
  trained :: "(nat \<times> layer list) list"

text \<open>\<^verbatim>\<open>model = Net()\<close>: a new object, and the variable bound to it.\<close>

definition new_Net :: "notebook \<Rightarrow> notebook" where
  "new_Net nb = nb\<lparr>objects := objects nb @ [Net], model := length (objects nb)\<rparr>"

text \<open>\<^verbatim>\<open>train_and_eval(model, trainloader, testloader)\<close>\<close>

definition call_train_and_eval :: "notebook \<Rightarrow> notebook" where
  "call_train_and_eval nb = nb\<lparr>trained := trained nb @ [(model nb, objects nb ! model nb)]\<rparr>"

text \<open>
  The four cells that touch the model: the baseline run (source lines 192 and 193), the
  run with the augmented loader (lines 249 to 252), the surgery (line 275) and the last
  run (line 291).
\<close>

definition cell_baseline :: "notebook \<Rightarrow> notebook" where
  "cell_baseline nb = call_train_and_eval (new_Net nb)"

definition cell_colout :: "notebook \<Rightarrow> notebook" where
  "cell_colout nb = call_train_and_eval (new_Net nb)"

definition cell_squeeze_excite :: "notebook \<Rightarrow> notebook" where
  "cell_squeeze_excite nb = nb\<lparr>objects := apply_squeeze_excite (model nb) 64 16 (objects nb)\<rparr>"

definition cell_final :: "notebook \<Rightarrow> notebook" where
  "cell_final nb = call_train_and_eval nb"

chapter \<open>Theorems\<close>

section \<open>The workflow file\<close>








text \<open>
  Claim C4, as stated: the surface is a trigger on pull requests, a concurrency group and
  a matrix of container images, test markers and secrets references, and nothing else. The
  file has more: a second trigger (\<^verbatim>\<open>workflow_dispatch\<close>), a guard on the job
  (\<^verbatim>\<open>if\<close>), and two more keys in the matrix entry (\<^verbatim>\<open>pytest_command\<close> and
  \<^verbatim>\<open>composer_package_name\<close>).
\<close>

theorem claimed_surface_counterexample:
  "\<not> claimed_surface pr_gpu"
  by (simp add: claimed_surface_def pr_gpu_def triggers_def)

text \<open>
  Claim C4, amended: the workflow is triggered by \<^verbatim>\<open>pull_request_target\<close> and by
  \<^verbatim>\<open>workflow_dispatch\<close>; it has a concurrency block with a group and a
  \<^verbatim>\<open>cancel-in-progress\<close> expression; it has the single job \<^verbatim>\<open>pytest-gpu\<close>, which calls
  a reusable workflow under a guard on the repository owner, passes it seven inputs and the
  secret \<^verbatim>\<open>MCLOUD_API_KEY\<close>, and has a matrix of one entry that carries a name, a
  container image, test markers, a pytest command and a package name.
\<close>

theorem pr_gpu_surface:
  "keys pr_gpu = [''name'', ''on'', ''concurrency'', ''jobs'']
   \<and> triggers pr_gpu = [''pull_request_target'', ''workflow_dispatch'']
   \<and> keys_at [''concurrency''] pr_gpu = [''group'', ''cancel-in-progress'']
   \<and> jobs pr_gpu = [''pytest-gpu'']
   \<and> job_keys pr_gpu ''pytest-gpu'' = [''uses'', ''strategy'', ''name'', ''if'', ''with'', ''secrets'']
   \<and> lookup [''jobs'', ''pytest-gpu'', ''uses''] pr_gpu = Some (YStr ''./.github/workflows/pytest-gpu.yaml'')
   \<and> lookup [''jobs'', ''pytest-gpu'', ''if''] pr_gpu =
       Some (YStr (''github.repository_owner == 'mosaicml'' @ [CHR 0x27]))
   \<and> map keys (matrix_entries pr_gpu ''pytest-gpu'') =
       [[''name'', ''container'', ''markers'', ''pytest_command'', ''composer_package_name'']]
   \<and> keys_at [''jobs'', ''pytest-gpu'', ''with''] pr_gpu =
       [''composer_package_name'', ''container'', ''mcloud-timeout'', ''name'',
        ''pytest-command'', ''pytest-markers'', ''python-version'']
   \<and> lookup [''jobs'', ''pytest-gpu'', ''secrets''] pr_gpu =
       Some (YMap [(''mcloud-api-key'', YStr ''${{ secrets.MCLOUD_API_KEY }}'')])"
  by (simp add: pr_gpu_def triggers_def jobs_def job_keys_def matrix_entries_def)

section \<open>The notebook: \<^verbatim>\<open>train_and_eval\<close>\<close>

subsection \<open>Runs that return\<close>

lemma and_then_Inr:
  "and_then m f w = (tr, Inr r) \<longleftrightarrow>
     (\<exists>tr1 a w1 tr2. m w = (tr1, Inr (a, w1)) \<and> f a w1 = (tr2, Inr r) \<and> tr = tr1 @ tr2)"
  by (auto simp: and_then_def split: prod.splits sum.splits)

lemma lib_call_Inr:
  "lib_call c f w = (tr, Inr r) \<longleftrightarrow> f w = Inr r \<and> tr = [(c, None)]"
  by (auto simp: lib_call_def split: sum.splits)

lemma effect_Inr:
  "effect c f w = (tr, Inr (u, w')) \<longleftrightarrow> f w = Inr w' \<and> tr = [(c, None)]"
  by (auto simp: effect_def lib_call_def split: sum.splits)

lemma query_Inr:
  "query c x w = (tr, Inr (a, w')) \<longleftrightarrow> x = Inr a \<and> w' = w \<and> tr = [(c, None)]"
  by (auto simp: query_def lib_call_def split: sum.splits)

lemma ret_Inr: "ret a w = (tr, Inr r) \<longleftrightarrow> r = (a, w) \<and> tr = []"
  by (auto simp: ret_def)

subsection \<open>Failures propagate\<close>

lemma propagated_ret: "propagated (ret a w)"
  by (simp add: ret_def)

lemma propagated_true_div: "propagated (true_div a b w)"
  by (simp add: true_div_def)

lemma propagated_lib_call: "propagated (lib_call c f w)"
  by (simp add: lib_call_def ok_def split: sum.splits)

lemma propagated_effect: "propagated (effect c f w)"
  by (simp add: effect_def propagated_lib_call)

lemma propagated_query: "propagated (query c x w)"
  by (simp add: query_def propagated_lib_call)

lemma propagated_Inl:
  "propagated (tr, (Inl e :: error + 'a)) \<Longrightarrow> propagated (tr, (Inl e :: error + 'b))"
  by (cases e) simp_all

lemma propagated_and_then:
  assumes "propagated (m w)" and "\<And>a w'. propagated (f a w')"
  shows "propagated (and_then m f w)"
proof (cases "m w")
  case (Pair tr r)
  show ?thesis
  proof (cases r)
    case (Inl e)
    with Pair assms(1) show ?thesis by (auto simp: and_then_def intro: propagated_Inl)
  next
    case (Inr p)
    obtain a w' where p: "p = (a, w')" by (cases p)
    obtain tr' r' where f: "f a w' = (tr', r')" by (cases "f a w'")
    have tr: "list_all ok tr" using assms(1) Pair Inr by simp
    have at: "and_then m f w = (tr @ tr', r')"
      using Pair Inr p f by (simp add: and_then_def)
    have pf: "propagated (tr', r')" using assms(2)[of a w'] f by simp
    show ?thesis
    proof (cases r')
      case (Inr q)
      with pf tr at show ?thesis by simp
    next
      case (Inl e)
      show ?thesis
      proof (cases e)
        case ZeroDivisionError
        with Inl pf tr at show ?thesis by simp
      next
        case (LibraryError x)
        with Inl pf have "tr' \<noteq> []" "snd (last tr') = Some x" "list_all ok (butlast tr')"
          by simp_all
        with tr at Inl LibraryError show ?thesis
          by (simp add: butlast_append)
      qed
    qed
  qed
qed

lemma propagated_for_batches:
  assumes "\<And>b acc w. propagated (body b acc w)"
  shows "propagated (for_batches nxt body items acc w)"
proof (induction items arbitrary: acc w)
  case Nil
  show ?case by (simp add: propagated_and_then propagated_query propagated_ret)
next
  case (Cons item rest)
  show ?case
    by (simp add: propagated_and_then propagated_query assms Cons.IH)
qed

lemma propagated_for_range:
  assumes "\<And>k w. propagated (body k w)"
  shows "propagated (for_range body ks w)"
  by (induction ks arbitrary: w) (simp_all add: propagated_ret propagated_and_then assms)

lemmas propagated_intros =
  propagated_and_then propagated_query propagated_effect propagated_lib_call
  propagated_ret propagated_true_div

lemma propagated_train_step: "propagated (train_step L dev b w)"
  unfolding train_step_def by (cases b) (simp add: propagated_intros)

lemma propagated_eval_step: "propagated (eval_step L dev b acc w)"
  unfolding eval_step_def by (cases b; cases acc) (simp add: propagated_intros)

lemma propagated_training: "propagated (training L dev bs w)"
  unfolding training_def
  by (intro propagated_intros propagated_for_batches propagated_train_step)

lemma propagated_evaluation: "propagated (evaluation L dev bs w)"
  unfolding evaluation_def
  by (intro propagated_intros propagated_for_batches propagated_eval_step)

lemma propagated_print: "propagated (print L m w)"
  unfolding print_def by (rule propagated_effect)

lemma propagated_evaluate: "propagated (evaluate L dev k bs w)"
  unfolding evaluate_def
  by (intro propagated_and_then propagated_evaluation)
     (auto intro!: propagated_intros propagated_print)

lemma propagated_epoch_body: "propagated (epoch_body L dev trl tel k w)"
  unfolding epoch_body_def
  by (intro propagated_and_then propagated_print propagated_training propagated_evaluate)

text \<open>
  Claim C7: the notebook retries nothing, validates nothing and has no error type of its
  own; a failure of a library call propagates unchanged. \<^verbatim>\<open>train_and_eval\<close> is the only
  code of the notebook with control flow (the other cells are straight lines of library
  calls). In every run of it, on every framework, state and pair of loaders: a call that
  raised is the last call made (nothing is retried, nothing runs after it), and its
  exception is the outcome of the run; the only other error a run can end in is the
  built-in \<^verbatim>\<open>ZeroDivisionError\<close> of the division, and then no call raised.
\<close>

theorem train_and_eval_propagates:
  "propagated (train_and_eval G A train_loader test_loader w)"
  unfolding train_and_eval_def Let_def
  by (intro propagated_and_then propagated_effect propagated_query
        propagated_for_range propagated_epoch_body)

theorem train_and_eval_propagates_witness:
  "propagated (train_and_eval demo_globals out_of_memory demo_train demo_test (0, False))
   \<and> train_and_eval demo_globals out_of_memory demo_train demo_test (0, False) =
       ([(Manual_seed 42, None), (Cuda_is_available, None), (Model_to Cpu, None), (Adam, None),
         (Print (Beginning_epoch 0), None), (Model_train, None), (Tqdm, None),
         (Next_train, None), (Tensor_to Cpu, None), (Labels_to Cpu, None),
         (Forward, Some ''CUDA out of memory'')],
        Inl (LibraryError ''CUDA out of memory''))"
proof -
  have "train_and_eval demo_globals out_of_memory demo_train demo_test (0, False) =
       ([(Manual_seed 42, None), (Cuda_is_available, None), (Model_to Cpu, None), (Adam, None),
         (Print (Beginning_epoch 0), None), (Model_train, None), (Tqdm, None),
         (Next_train, None), (Tensor_to Cpu, None), (Labels_to Cpu, None),
         (Forward, Some ''CUDA out of memory'')],
        Inl (LibraryError ''CUDA out of memory''))"
    by code_simp
  with train_and_eval_propagates
    [of demo_globals out_of_memory demo_train demo_test "(0, False)"]
  show ?thesis by simp
qed

subsection \<open>What a run that returns did to the state\<close>


















subsection \<open>The order of the scheduled calls, in every run\<close>

lemma calls_append: "calls (a @ b) = calls a @ calls b"
  by (simp add: calls_def)






















subsection \<open>The module-level bindings\<close>






subsection \<open>The division\<close>




























lemma eval_step_Inr:
  assumes "eval_step L dev (X, y) (nr, es) w = (tr, Inr ((nr', es'), w'))"
  shows "\<exists>X' y' y_hat preds n.
           tensor_to L dev X = Inr X' \<and> labels_to L dev y = Inr y' \<and>
           forward L X' w = Inr (y_hat, w') \<and> argmax L y_hat = Inr preds \<and>
           eq_sum preds y' = Inr n \<and> nr' = nr + n \<and> es' = es + int (length y')"
  using assms unfolding eval_step_def
  by (auto simp: and_then_Inr query_Inr lib_call_Inr ret_Inr)











subsection \<open>The evaluation phase\<close>

lemma set_calls_and_then:
  assumes "set (calls (fst (m w))) \<subseteq> S" and "\<And>a w'. set (calls (fst (f a w'))) \<subseteq> S"
  shows "set (calls (fst (and_then m f w))) \<subseteq> S"
proof (cases "m w")
  case (Pair tr r)
  show ?thesis
  proof (cases r)
    case (Inl e)
    with Pair assms(1) show ?thesis by (simp add: and_then_def)
  next
    case (Inr p)
    obtain a w' where p: "p = (a, w')" by (cases p)
    obtain tr' r' where f: "f a w' = (tr', r')" by (cases "f a w'")
    have "and_then m f w = (tr @ tr', r')"
      using Pair Inr p f by (simp add: and_then_def)
    then show ?thesis using assms(1) assms(2)[of a w'] Pair f
      by (simp add: calls_append)
  qed
qed

lemma set_calls_lib_call: "c \<in> S \<Longrightarrow> set (calls (fst (lib_call c f w))) \<subseteq> S"
  by (simp add: lib_call_def calls_def split: sum.splits)

lemma set_calls_effect: "c \<in> S \<Longrightarrow> set (calls (fst (effect c f w))) \<subseteq> S"
  by (simp add: effect_def set_calls_lib_call)

lemma set_calls_query: "c \<in> S \<Longrightarrow> set (calls (fst (query c x w))) \<subseteq> S"
  by (simp add: query_def set_calls_lib_call)

lemma set_calls_ret: "set (calls (fst (ret a w))) \<subseteq> S"
  by (simp add: ret_def calls_def)

lemma set_calls_for_batches:
  assumes "nxt \<in> S" and "\<And>b acc w. set (calls (fst (body b acc w))) \<subseteq> S"
  shows "set (calls (fst (for_batches nxt body items acc w))) \<subseteq> S"
proof (induction items arbitrary: acc w)
  case Nil
  show ?case using assms(1) by (simp add: set_calls_and_then set_calls_query set_calls_ret)
next
  case (Cons item rest)
  show ?case using assms by (simp add: set_calls_and_then set_calls_query Cons.IH)
qed

lemma set_calls_eval_step: "set (calls (fst (eval_step L dev b acc w))) \<subseteq> eval_calls dev"
  unfolding eval_step_def
  by (cases b; cases acc)
     (simp add: set_calls_and_then set_calls_query set_calls_lib_call set_calls_ret eval_calls_def)

lemma set_calls_evaluation: "set (calls (fst (evaluation L dev items w))) \<subseteq> eval_calls dev"
  unfolding evaluation_def
  by (intro set_calls_and_then set_calls_effect set_calls_for_batches set_calls_eval_step)
     (simp_all add: eval_calls_def)

lemma eval_step_frame:
  assumes fwd: "\<forall>x w y w'. in_eval w \<longrightarrow> forward L x w = Inr (y, w') \<longrightarrow>
                  obs w' = obs w \<and> in_eval w'"
    and run: "eval_step L dev b acc w = (tr, Inr (acc', w'))"
    and start: "in_eval w"
  shows "obs w' = obs w \<and> in_eval w'"
proof -
  obtain X y where b: "b = (X, y)" by (cases b)
  obtain nr es where acc: "acc = (nr, es)" by (cases acc)
  obtain nr' es' where acc': "acc' = (nr', es')" by (cases acc')
  from eval_step_Inr[OF run[unfolded b acc acc']] obtain X' y_hat
    where "forward L X' w = Inr (y_hat, w')" by blast
  with fwd start show ?thesis by blast
qed

lemma eval_loop_frame:
  assumes fwd: "\<forall>x w y w'. in_eval w \<longrightarrow> forward L x w = Inr (y, w') \<longrightarrow>
                  obs w' = obs w \<and> in_eval w'"
    and run: "for_batches Next_test (eval_step L dev) items acc w = (tr, Inr (acc', w'))"
    and start: "in_eval w"
  shows "obs w' = obs w"
  using run start
proof (induction items arbitrary: acc w tr)
  case Nil
  then show ?case by (auto simp: and_then_Inr query_Inr ret_Inr)
next
  case (Cons item rest)
  from Cons.prems(1) obtain t1 b w1 t2 acc1 w2 t3
    where q: "query Next_test item w = (t1, Inr (b, w1))"
      and st: "eval_step L dev b acc w1 = (t2, Inr (acc1, w2))"
      and rest: "for_batches Next_test (eval_step L dev) rest acc1 w2 = (t3, Inr (acc', w'))"
    by (auto simp: and_then_Inr)
  from q have w1: "w1 = w" by (simp add: query_Inr)
  have "obs w2 = obs w \<and> in_eval w2"
    using eval_step_frame[where obs = obs, OF fwd st] Cons.prems(2) w1 by simp
  then have o: "obs w2 = obs w" and i: "in_eval w2" by simp_all
  from Cons.IH[OF rest i] o show ?case by simp
qed

lemma evaluation_frame:
  assumes ev: "\<forall>w w'. model_eval L w = Inr w' \<longrightarrow> obs w' = obs w \<and> in_eval w'"
    and fwd: "\<forall>x w y w'. in_eval w \<longrightarrow> forward L x w = Inr (y, w') \<longrightarrow>
                  obs w' = obs w \<and> in_eval w'"
    and run: "evaluation L dev items w = (tr, Inr (acc, w'))"
  shows "obs w' = obs w"
proof -
  from run obtain t1 u w1 t2
    where a: "effect Model_eval (model_eval L) w = (t1, Inr (u, w1))"
      and b: "for_batches Next_test (eval_step L dev) items (0, 0) w1 = (t2, Inr (acc, w'))"
    unfolding evaluation_def by (auto simp: and_then_Inr)
  from a have "model_eval L w = Inr w1" by (simp add: effect_Inr)
  with ev have o: "obs w1 = obs w" and i: "in_eval w1" by simp_all
  from eval_loop_frame[where obs = obs, OF fwd b i] o show ?thesis by simp
qed

text \<open>
  Claim C10: the evaluation phase of an epoch (\<^verbatim>\<open>model.eval()\<close> and the loop over the
  test loader) makes no backward pass and no optimizer step and leaves the parameters and
  the optimizer state as they are, so the parameters that enter the training phase of the
  next epoch are those the training phase of this epoch produced. The calls of the
  evaluation phase are \<^verbatim>\<open>model.eval()\<close>, the fetches, the two moves to the device, the
  forward pass, \<^verbatim>\<open>argmax\<close> and the comparison, and no other. For any observation \<open>obs\<close>
  of the state (the parameters and the optimizer state, say) that \<^verbatim>\<open>model.eval()\<close>, a
  forward pass in evaluation mode and \<^verbatim>\<open>print\<close> leave unchanged, the evaluation phase
  leaves it unchanged, and so does everything between the end of one training phase and
  the \<^verbatim>\<open>model.train()\<close> of the next.
\<close>

theorem evaluation_leaves_parameters:
  assumes ev: "\<And>w w'. model_eval L w = Inr w' \<Longrightarrow> obs w' = obs w \<and> in_eval w'"
    and fwd: "\<And>x w y w'. in_eval w \<Longrightarrow> forward L x w = Inr (y, w') \<Longrightarrow>
                  obs w' = obs w \<and> in_eval w'"
    and prt: "\<And>m w w'. print_line L m w = Inr w' \<Longrightarrow> obs w' = obs w"
  shows "set (calls (fst (evaluation L dev items w))) \<subseteq> eval_calls dev
       \<and> (\<forall>tr acc w'. evaluation L dev items w = (tr, Inr (acc, w')) \<longrightarrow> obs w' = obs w)
       \<and> (\<forall>tr u w'. and_then (evaluate L dev k items)
                          (\<lambda>_. print L (Beginning_epoch (Suc k))) w = (tr, Inr (u, w'))
              \<longrightarrow> obs w' = obs w)"
proof (intro conjI allI impI)
  have ev': "\<forall>w w'. model_eval L w = Inr w' \<longrightarrow> obs w' = obs w \<and> in_eval w'"
    using ev by blast
  have fwd': "\<forall>x w y w'. in_eval w \<longrightarrow> forward L x w = Inr (y, w') \<longrightarrow>
                  obs w' = obs w \<and> in_eval w'"
    using fwd by blast
  show "set (calls (fst (evaluation L dev items w))) \<subseteq> eval_calls dev"
    by (rule set_calls_evaluation)
  {
    fix tr acc w'
    assume "evaluation L dev items w = (tr, Inr (acc, w'))"
    then show "obs w' = obs w" by (rule evaluation_frame[where obs = obs, OF ev' fwd'])
  }
  fix tr u w'
  assume "and_then (evaluate L dev k items)
            (\<lambda>_. print L (Beginning_epoch (Suc k))) w = (tr, Inr (u, w'))"
  then obtain t1 w1 t2 u1 where a: "evaluate L dev k items w = (t1, Inr (u1, w1))"
    and b: "print L (Beginning_epoch (Suc k)) w1 = (t2, Inr (u, w'))"
    by (auto simp: and_then_Inr)
  from a obtain t3 nr es w2 t4 acc w3 t5
    where c: "evaluation L dev items w = (t3, Inr ((nr, es), w2))"
      and d: "true_div (100 * nr) es w2 = (t4, Inr (acc, w3))"
      and e: "print L (Validation_accuracy k acc) w3 = (t5, Inr (u1, w1))"
    unfolding evaluate_def by (auto simp: and_then_Inr)
  have "obs w2 = obs w" using c by (rule evaluation_frame[where obs = obs, OF ev' fwd'])
  moreover have "w3 = w2" using d by (simp add: true_div_def split: if_splits)
  moreover have "obs w1 = obs w3" using e prt by (auto simp: print_def effect_Inr)
  moreover have "obs w' = obs w1" using b prt by (auto simp: print_def effect_Inr)
  ultimately show "obs w' = obs w" by simp
qed

theorem evaluation_leaves_parameters_witness:
  "set (calls (fst (evaluation demo Cpu (demo_test 0) (3, True)))) \<subseteq> eval_calls Cpu
   \<and> snd (evaluation demo Cpu (demo_test 0) (3, True)) = Inr ((3, 4), (3, False))
   \<and> snd (and_then (evaluate demo Cpu 0 (demo_test 0))
             (\<lambda>_. print demo (Beginning_epoch (Suc 0))) (3, True)) = Inr ((), (3, False))"
proof -
  have a: "\<And>w w'. model_eval demo w = Inr w' \<Longrightarrow> fst w' = fst w \<and> \<not> snd w'"
    by (auto simp: demo_def)
  have b: "\<And>x w y w'. \<not> snd w \<Longrightarrow> forward demo x w = Inr (y, w') \<Longrightarrow>
                  fst w' = fst w \<and> \<not> snd w'"
    by (auto simp: demo_def)
  have c: "\<And>m w w'. print_line demo m w = Inr w' \<Longrightarrow> fst w' = fst w"
    by (auto simp: demo_def)
  have d: "snd (evaluation demo Cpu (demo_test 0) (3, True)) = Inr ((3, 4), (3, False))"
    by code_simp
  have e: "snd (and_then (evaluate demo Cpu 0 (demo_test 0))
             (\<lambda>_. print demo (Beginning_epoch (Suc 0))) (3, True)) = Inr ((), (3, False))"
    by code_simp
  from evaluation_leaves_parameters[where L = demo and obs = fst and in_eval = "\<lambda>w. \<not> snd w"
      and dev = Cpu and items = "demo_test 0" and w = "(3, True)" and k = 0, OF a b c] d e
  show ?thesis by simp
qed

section \<open>The notebook: the two calls into \<^verbatim>\<open>composer.functional\<close>\<close>

text \<open>
  Claim C5, as stated: when plugged into the training data pipeline, \<^verbatim>\<open>colout_batch\<close>,
  appended after \<^verbatim>\<open>ToTensor\<close> and \<^verbatim>\<open>Normalize\<close> in the composed train transform,
  consumes a batch of input tensors and returns a batch of transformed tensors. It fails:
  the composed transform is given an image, \<^verbatim>\<open>ToTensor\<close> makes the tensor of that image,
  and \<^verbatim>\<open>colout_batch\<close> is handed the one tensor that \<^verbatim>\<open>Normalize\<close> returned, which is not
  a batch; what the pipeline returns for the image is one tensor.
\<close>

theorem colout_batch_input_counterexample:
  "handed_to demo_vision swap_channels on_one_tensor Colout_batch train_transforms
     (PIL [0, 255, 255]) = Some (Tensor [- 1, 1, 1])
   \<and> \<not> is_batch (Tensor [- 1, 1, 1] :: (nat list, rat list) sample)
   \<and> train_transform demo_vision swap_channels on_one_tensor (PIL [0, 255, 255]) =
       Inr (Tensor [1, - 1, 1])
   \<and> \<not> is_batch (Tensor [1, - 1, 1] :: (nat list, rat list) sample)"
  by (simp add: train_transforms_def shared_transforms_def train_transform_def demo_vision_def)

text \<open>
  Claim C5, amended: when plugged into the training data pipeline, \<^verbatim>\<open>colout_batch\<close>,
  appended after \<^verbatim>\<open>ToTensor\<close> and \<^verbatim>\<open>Normalize\<close> in the composed train transform,
  consumes the tensor of one image at a time and never a batch of input tensors; given a
  batch of input tensors it returns a batch of transformed tensors. The theorem: the list
  of training transforms is the two shared transforms followed by \<^verbatim>\<open>colout_batch\<close>; for
  an image, \<^verbatim>\<open>colout_batch\<close> is handed the tensor that \<^verbatim>\<open>Normalize\<close> returned for it, and
  what it returns for that tensor is the result of the pipeline; whatever value the
  composed train transform is applied to, a value that reaches \<^verbatim>\<open>colout_batch\<close> is not a
  batch; on a batch, \<^verbatim>\<open>colout_batch\<close> returns a batch of as many tensors, each the
  transformed tensor of the one at its index; and the test pipeline does not contain it.
\<close>

theorem colout_batch_in_pipeline:
  "train_transforms = [ToTensor, Normalize [1/2, 1/2, 1/2] [1/2, 1/2, 1/2], Colout_batch]
   \<and> handed_to V alg other Colout_batch train_transforms (PIL img) =
       Some (Tensor (normalize V [1/2, 1/2, 1/2] [1/2, 1/2, 1/2] (to_tensor V img)))
   \<and> train_transform V alg other (PIL img) =
       other (Tensor (normalize V [1/2, 1/2, 1/2] [1/2, 1/2, 1/2] (to_tensor V img)))
   \<and> (\<forall>s s'. handed_to V alg other Colout_batch train_transforms s = Some s' \<longrightarrow> \<not> is_batch s')
   \<and> apply_transform V alg other Colout_batch (Batch ts) = Inr (Batch (colout_batch alg ts))
   \<and> length (colout_batch alg ts) = length ts
   \<and> (\<forall>n < length ts. colout_batch alg ts ! n = alg (ts ! n))
   \<and> test_transform V alg other (PIL img) =
       Inr (Tensor (normalize V [1/2, 1/2, 1/2] [1/2, 1/2, 1/2] (to_tensor V img)))
   \<and> Colout_batch \<notin> set shared_transforms"
proof -
  have a: "\<forall>s s'. handed_to V alg other Colout_batch train_transforms s = Some s' \<longrightarrow> \<not> is_batch s'"
  proof (intro allI impI)
    fix s s' :: "('a, 'b) sample"
    assume "handed_to V alg other Colout_batch train_transforms s = Some s'"
    then show "\<not> is_batch s'"
      by (cases s) (auto simp: train_transforms_def shared_transforms_def)
  qed
  have b: "train_transform V alg other (PIL img) =
       other (Tensor (normalize V [1/2, 1/2, 1/2] [1/2, 1/2, 1/2] (to_tensor V img)))"
    by (simp add: train_transforms_def shared_transforms_def train_transform_def
        split: sum.splits)
  have c: "handed_to V alg other Colout_batch train_transforms (PIL img) =
       Some (Tensor (normalize V [1/2, 1/2, 1/2] [1/2, 1/2, 1/2] (to_tensor V img)))"
    by (simp add: train_transforms_def shared_transforms_def)
  have d: "test_transform V alg other (PIL img) =
       Inr (Tensor (normalize V [1/2, 1/2, 1/2] [1/2, 1/2, 1/2] (to_tensor V img)))"
    by (simp add: shared_transforms_def test_transform_def)
  have e: "train_transforms = [ToTensor, Normalize [1/2, 1/2, 1/2] [1/2, 1/2, 1/2], Colout_batch]"
    "Colout_batch \<notin> set shared_transforms"
    by (simp_all add: train_transforms_def shared_transforms_def)
  have f: "apply_transform V alg other Colout_batch (Batch ts) = Inr (Batch (colout_batch alg ts))"
    "length (colout_batch alg ts) = length ts"
    "\<forall>n < length ts. colout_batch alg ts ! n = alg (ts ! n)"
    by (simp_all add: colout_batch_def)
  from a b c d e f show ?thesis by (intro conjI)
qed

theorem colout_batch_in_pipeline_witness:
  "handed_to demo_vision swap_channels on_one_tensor Colout_batch train_transforms
     (PIL [255, 0, 51]) = Some (Tensor [1, - 1, - 3 / 5])
   \<and> \<not> is_batch (Tensor [1, - 1, - 3 / 5] :: (nat list, rat list) sample)
   \<and> train_transform demo_vision swap_channels on_one_tensor (PIL [255, 0, 51]) =
       Inr (Tensor [- 1, 1, - 3 / 5])
   \<and> (1::nat) < length [[1, - 1, 0], [0, 1, 1 :: rat]]
   \<and> colout_batch swap_channels [[1, - 1, 0], [0, 1, 1]] ! 1 = [1, 0, 1]
   \<and> test_transform demo_vision swap_channels on_one_tensor (PIL [255, 0, 51]) =
       Inr (Tensor [1, - 1, - 3 / 5])"
proof -
  note T = colout_batch_in_pipeline[of demo_vision swap_channels on_one_tensor "[255, 0, 51]"
      "[[1, - 1, 0], [0, 1, 1]]"]
  have n: "normalize demo_vision [1/2, 1/2, 1/2] [1/2, 1/2, 1/2]
             (to_tensor demo_vision [255, 0, 51]) = [1, - 1, - 3 / 5]"
    by (simp add: demo_vision_def)
  have h: "handed_to demo_vision swap_channels on_one_tensor Colout_batch train_transforms
     (PIL [255, 0, 51]) = Some (Tensor [1, - 1, - 3 / 5])"
    using T n by simp
  have b: "\<not> is_batch (Tensor [1, - 1, - 3 / 5] :: (nat list, rat list) sample)"
    using T h by blast
  have c: "colout_batch swap_channels [[1, - 1, 0], [0, 1, 1]] ! 1 = [1, 0, 1]"
    using T by simp
  show ?thesis using T n h b c by simp
qed

lemma subseq_insert_squeeze_excite: "subseq ls (insert_squeeze_excite lc mc ls)"
  by (induction ls) (auto intro: subseq_Cons')

text \<open>
  Claim C1: \<^verbatim>\<open>apply_squeeze_excite(model, latent_channels=64, min_channels=16)\<close> takes
  the model and two numbers and mutates the model in place, and the training call that
  follows uses the very same object, extended and not replaced. For every state of the
  notebook before the baseline cell: the variable \<^verbatim>\<open>model\<close> refers to the same object
  before and after the surgery; the surgery creates no object and changes no other
  object; the object's graph after the surgery is the graph of \<^verbatim>\<open>Net\<close> with one block
  inserted after the second convolution, so the old graph is a subsequence of the new one;
  and the last call of \<^verbatim>\<open>train_and_eval\<close> is given that object, which the call before
  it was given with the graph of \<^verbatim>\<open>Net\<close>.
\<close>

theorem squeeze_excite_in_place:
  fixes nb :: notebook
  defines "a \<equiv> Suc (length (objects nb))"
  defines "before \<equiv> cell_colout (cell_baseline nb)"
  defines "after \<equiv> cell_squeeze_excite before"
  shows "model before = a \<and> model after = a \<and> objects before ! a = Net
       \<and> length (objects after) = length (objects before)
       \<and> (\<forall>b < length (objects before). b \<noteq> a \<longrightarrow> objects after ! b = objects before ! b)
       \<and> objects after ! a = insert_squeeze_excite 64 16 Net
       \<and> subseq Net (objects after ! a)
       \<and> objects after ! a =
           [Conv2d 3 16 (3, 3) 2, Relu,
            Conv2d 16 32 (3, 3) 1, SqueezeExcite 32 64,
            BatchNorm2d 32, Relu,
            AdaptiveAvgPool2d 1, Flatten 1,
            Linear 32 128, Relu,
            Linear 128 64, Relu,
            Linear 64 10]
       \<and> trained (cell_final after) = trained before @ [(a, objects after ! a)]
       \<and> last (trained before) = (a, Net)"
  unfolding a_def before_def after_def
  by (simp add: cell_final_def cell_squeeze_excite_def cell_colout_def cell_baseline_def
      call_train_and_eval_def new_Net_def apply_squeeze_excite_def nth_append
      subseq_insert_squeeze_excite)
     (simp add: Net_def)

theorem squeeze_excite_in_place_witness:
  "model (cell_squeeze_excite (cell_colout (cell_baseline \<lparr>objects = [], model = 0, trained = []\<rparr>))) = 1
   \<and> objects (cell_squeeze_excite (cell_colout (cell_baseline \<lparr>objects = [], model = 0, trained = []\<rparr>)))
       = [Net, insert_squeeze_excite 64 16 Net]
   \<and> map fst (trained (cell_final (cell_squeeze_excite (cell_colout (cell_baseline \<lparr>objects = [], model = 0, trained = []\<rparr>)))))
       = [0, 1, 1]"
proof -
  have "objects (cell_squeeze_excite (cell_colout (cell_baseline \<lparr>objects = [], model = 0, trained = []\<rparr>)))
       = [Net, insert_squeeze_excite 64 16 Net]"
    by (simp add: cell_squeeze_excite_def cell_colout_def cell_baseline_def
        call_train_and_eval_def new_Net_def apply_squeeze_excite_def)
  moreover have "trained (cell_colout (cell_baseline \<lparr>objects = [], model = 0, trained = []\<rparr>))
       = [(0, Net), (1, Net)]"
    by (simp add: cell_colout_def cell_baseline_def call_train_and_eval_def new_Net_def)
  ultimately show ?thesis
    using squeeze_excite_in_place [of "\<lparr>objects = [], model = 0, trained = []\<rparr>"]
    by simp
qed

end
